theory Spec2Isabelle
  imports Complex_Main
begin

section \<open>JavaScript values used by the adapter\<close>

text \<open>
  A JavaScript string is modelled as a \<^typ>\<open>string\<close>: one \<^typ>\<open>char\<close> stands for one
  code unit, which is what \<^verbatim>\<open>substring\<close> and \<^verbatim>\<open>length\<close> count. Counters and
  HTTP status codes are the integers their IEEE doubles denote (see \<open>js_add\<close> and
  \<open>number_str\<close> below for their sum and their printed form); a sentiment score is the
  real number its IEEE double denotes (the order on doubles is the order on the numbers they denote, and no double
  lies strictly between the double nearest to 0.3 and 0.3 itself, so comparing with the
  literal \<^verbatim>\<open>0.3\<close> is comparing with 3/10).
\<close>

definition NL :: string where
  "NL = [CHR 0x0A]"

fun nat_str :: "nat \<Rightarrow> string" where
  "nat_str n =
     (if n < 10 then [''0123456789'' ! n]
      else nat_str (n div 10) @ [''0123456789'' ! (n mod 10)])"

declare nat_str.simps [simp del]

text \<open>Template-literal rendering of an integral number: \<^verbatim>\<open>`${n}`\<close>.\<close>

definition num_str :: "int \<Rightarrow> string" where
  "num_str i = (if i < 0 then CHR ''-'' # nat_str (nat (- i)) else nat_str (nat i))"

text \<open>Template-literal rendering of a possibly undefined string.\<close>

definition str_or_undefined :: "string option \<Rightarrow> string" where
  "str_or_undefined v = (case v of None \<Rightarrow> ''undefined'' | Some s \<Rightarrow> s)"

text \<open>\<^verbatim>\<open>Array.prototype.join\<close> on an array of strings.\<close>

fun join :: "string \<Rightarrow> string list \<Rightarrow> string" where
  "join sep [] = []"
| "join sep [x] = x"
| "join sep (x # y # ys) = x @ sep @ join sep (y # ys)"

text \<open>\<^verbatim>\<open>a || b\<close> on strings: the empty string and \<^verbatim>\<open>undefined\<close> are falsy.\<close>

definition or_else :: "string option \<Rightarrow> string \<Rightarrow> string" where
  "or_else v d = (case v of None \<Rightarrow> d | Some s \<Rightarrow> if s = [] then d else s)"

text \<open>
  Built-ins whose output is fixed by the JavaScript runtime and its locale, not by the
  repository: \<^verbatim>\<open>new Date(s).toLocaleDateString()\<close> and \<^verbatim>\<open>x.toFixed(2)\<close>.
\<close>

record runtime =
  toLocaleDateString :: "string \<Rightarrow> string"
  toFixed2 :: "real \<Rightarrow> string"
  numberToString :: "int \<Rightarrow> string"

text \<open>
  Numbers are IEEE doubles. Every integer of magnitude up to \<open>2^53\<close> is a double; a
  larger integer is one only if it fits 53 significant bits. \<open>double_round\<close> is the
  double nearest to an integer, ties going to the even significand, as the sum of two
  doubles is rounded (integers beyond the largest finite double are not modelled).
\<close>

fun bit_length :: "nat \<Rightarrow> nat" where
  "bit_length n = (if n = 0 then 0 else Suc (bit_length (n div 2)))"

declare bit_length.simps [simp del]

definition double_round :: "int \<Rightarrow> int" where
  "double_round n =
     (if \<bar>n\<bar> \<le> 2 ^ 53 then n
      else
        (let m = nat \<bar>n\<bar>;
             ulp = 2 ^ (bit_length m - 53);
             q = m div ulp;
             r = m mod ulp;
             q' = (if ulp < 2 * r \<or> (2 * r = ulp \<and> odd q) then q + 1 else q)
         in sgn n * int (q' * ulp)))"

text \<open>\<^verbatim>\<open>a + b\<close> on two numbers that are integers.\<close>

definition js_add :: "int \<Rightarrow> int \<Rightarrow> int" where
  "js_add a b = double_round (a + b)"

text \<open>
  Template-literal rendering of a number that is an integer. Up to \<open>2^53\<close> in magnitude
  the digits printed are the integer's own; beyond, \<^verbatim>\<open>Number::toString\<close> prints the
  shortest digits that read back as the same double, in exponent form from \<open>10^21\<close>
  on, and is left to the runtime.
\<close>

definition number_str :: "runtime \<Rightarrow> int \<Rightarrow> string" where
  "number_str rt n = (if \<bar>n\<bar> \<le> 2 ^ 53 then num_str n else numberToString rt n)"

text \<open>
  What a handler or a client method can throw: an \<^verbatim>\<open>Error\<close> with its message, the
  engine's \<^verbatim>\<open>TypeError\<close> for a property read on \<^verbatim>\<open>undefined\<close> or a call of a
  value that is not a function, and the protocol's \<^verbatim>\<open>McpError\<close>.
\<close>

datatype ErrorCode = InternalError

datatype error =
    Error string
  | TypeError string
  | McpError ErrorCode string

fun error_message :: "error \<Rightarrow> string" where
  "error_message (Error m) = m"
| "error_message (TypeError m) = m"
| "error_message (McpError c m) = m"

definition read_of_undefined :: "string \<Rightarrow> error" where
  "read_of_undefined prop =
     TypeError (''Cannot read properties of undefined (reading '' @ [CHR 0x27] @ prop @ [CHR 0x27] @ '')'')"

definition not_a_function :: "string \<Rightarrow> error" where
  "not_a_function expr = TypeError (expr @ '' is not a function'')"

section \<open>Data model (types/index.ts)\<close>

text \<open>
  Fields keep the source's names; a name that several interfaces share, or that HOL
  already uses, carries a prefix (\<open>entry_id\<close> for \<^verbatim>\<open>JournalEntry.id\<close>,
  \<open>pg_total\<close> for \<^verbatim>\<open>pagination.total\<close>, and so on).
\<close>

record EntryAnalysis =
  sentiment :: "real option"
  themes :: "string list option"
  insights :: "string list option"

datatype EntryStatus = draft | in_progress | completed

fun status_str :: "EntryStatus \<Rightarrow> string" where
  "status_str draft = ''draft''"
| "status_str in_progress = ''in_progress''"
| "status_str completed = ''completed''"

record JournalEntry =
  entry_id :: string
  title :: string
  content :: string
  mood :: "string option"
  tags :: "string list"
  status :: EntryStatus
  date :: string
  createdAt :: string
  updatedAt :: string
  analysis :: "EntryAnalysis option"

record CreateEntryInput =
  ce_content :: "string option"
  ce_mood :: "string option"
  ce_tags :: "string list option"
  ce_date :: "string option"

record ListEntriesParams =
  le_limit :: "int option"
  le_offset :: "int option"
  le_from_date :: "string option"
  le_to_date :: "string option"
  le_status :: "string option"
  le_tags :: "string option"

record SearchEntriesInput =
  se_query :: "string option"
  se_limit :: "int option"

record WeeklyReview =
  review_id :: string
  weekStart :: string
  weekEnd :: string
  summary :: string
  review_themes :: "string list"
  emotionalTrend :: string
  review_insights :: "string list"
  entriesCount :: int
  review_createdAt :: string

record ListReviewsParams =
  lr_limit :: "int option"
  lr_offset :: "int option"

record UserProfile =
  profile_id :: string
  username :: string
  email :: string
  timezone :: string
  journalingSince :: string
  totalEntries :: int
  currentStreak :: int
  preferredWritingStyle :: "string option"

record WritingStyle =
  currentStyle :: string
  styleDescription :: string
  voiceTone :: string
  suggestions :: "string list"

datatype ApiStatus = status_success | status_error

record 'a ApiResponse =
  api_status :: ApiStatus
  data :: "'a option"
  message :: "string option"

record Pagination =
  pg_total :: int
  pg_limit :: int
  pg_offset :: int
  hasMore :: bool

record ApiError =
  api_message :: string
  api_code :: "string option"

text \<open>The payload types the client methods give to \<^verbatim>\<open>ApiResponse<T>\<close>.\<close>

record EntriesData =
  entries :: "JournalEntry list"
  pagination :: Pagination

record EntryData =
  entry :: JournalEntry

record SearchData =
  sd_query :: string
  results :: "JournalEntry list"
  sd_count :: int

record ReviewsData =
  reviews :: "WeeklyReview list"
  reviews_pagination :: Pagination

record ReviewData =
  review :: WeeklyReview

record ProfileData =
  profile :: UserProfile

record StyleData =
  style :: WritingStyle

section \<open>Transport client (client/journalOwlClient.ts)\<close>

text \<open>
  What axios hands to the response interceptor's rejection handler: the response when
  one was received (its HTTP status and, when readable, the backend's error body),
  whether a request was sent, and the transport's own message.
\<close>

record ErrorResponse =
  err_status :: int
  err_data :: "ApiError option"

record AxiosError =
  response :: "ErrorResponse option"
  request :: bool
  err_message :: string

text \<open>
  One HTTP exchange: axios resolves with the parsed body, or rejects with an
  \<^typ>\<open>AxiosError\<close> (any status outside 2xx, no answer, or a local failure).
\<close>

datatype 'a exchange = Resolved "'a ApiResponse" | Rejected AxiosError

text \<open>The backend, one function per endpoint the client calls.\<close>

record backend =
  GET_entries :: "ListEntriesParams \<Rightarrow> EntriesData exchange"
  GET_entry :: "string \<Rightarrow> bool \<Rightarrow> EntryData exchange"
  POST_entries :: "CreateEntryInput \<Rightarrow> EntryData exchange"
  POST_entries_search :: "SearchEntriesInput \<Rightarrow> SearchData exchange"
  GET_reviews_weekly :: "ListReviewsParams \<Rightarrow> ReviewsData exchange"
  GET_review_weekly :: "string \<Rightarrow> ReviewData exchange"
  GET_user_profile :: "ProfileData exchange"
  GET_user_style :: "StyleData exchange"

text \<open>
  The rejection handler of the response interceptor (constructor, lines 180-192).
  \<^verbatim>\<open>error.response.data?.message || error.message\<close> falls back to the transport's
  message when the body is absent and when its message is the empty string.
\<close>

definition onRejected :: "AxiosError \<Rightarrow> error" where
  "onRejected err =
     (case response err of
        Some r \<Rightarrow>
          (let msg =
             (case err_data r of
                None \<Rightarrow> err_message err
              | Some d \<Rightarrow> if api_message d = [] then err_message err else api_message d)
           in Error (''JournalOwl API Error ('' @ num_str (err_status r) @ ''): '' @ msg))
      | None \<Rightarrow>
          if request err
          then Error ''JournalOwl API is unreachable. Please check your network connection.''
          else Error (''Request failed: '' @ err_message err))"

text \<open>\<^verbatim>\<open>await this.client.get/post(...)\<close>: the fulfilment handler is the identity.\<close>

definition await_exchange :: "'a exchange \<Rightarrow> error + 'a ApiResponse" where
  "await_exchange x = (case x of Resolved r \<Rightarrow> Inr r | Rejected e \<Rightarrow> Inl (onRejected e))"

text \<open>The calls of client methods, in the order they are made.\<close>

datatype client_call =
    ListEntriesCall ListEntriesParams
  | GetEntryCall "string option" bool
  | CreateEntryCall CreateEntryInput
  | SearchEntriesCall SearchEntriesInput
  | ListWeeklyReviewsCall ListReviewsParams
  | GetWeeklyReviewCall string
  | GetUserProfileCall
  | GetWritingStyleCall

text \<open>
  \<^verbatim>\<open>response.data.data!\<close>: the non-null assertion is erased by the compiler, so the
  value is the payload or \<^verbatim>\<open>undefined\<close> (\<open>None\<close>). The methods' default
  parameter values (\<^verbatim>\<open>params = {}\<close>, \<^verbatim>\<open>includeAnalysis = true\<close>,
  \<^verbatim>\<open>reviewId = 'latest'\<close>) stand in for an omitted argument only; every caller in
  the repository passes the argument, so the methods below take it as given.
\<close>

definition unwrap_data :: "error + 'a ApiResponse \<Rightarrow> error + 'a option" where
  "unwrap_data r = (case r of Inl e \<Rightarrow> Inl e | Inr resp \<Rightarrow> Inr (data resp))"

text \<open>\<^verbatim>\<open>response.data.data!.f\<close>: reading \<open>f\<close> of \<^verbatim>\<open>undefined\<close> throws.\<close>

definition unwrap_field :: "string \<Rightarrow> ('a \<Rightarrow> 'b) \<Rightarrow> error + 'a ApiResponse \<Rightarrow> error + 'b" where
  "unwrap_field name f r =
     (case r of
        Inl e \<Rightarrow> Inl e
      | Inr resp \<Rightarrow>
          (case data resp of None \<Rightarrow> Inl (read_of_undefined name) | Some d \<Rightarrow> Inr (f d)))"

definition listEntries ::
  "backend \<Rightarrow> ListEntriesParams \<Rightarrow> (error + EntriesData option) \<times> client_call list" where
  "listEntries b params =
     (unwrap_data (await_exchange (GET_entries b params)), [ListEntriesCall params])"

definition getEntry ::
  "backend \<Rightarrow> string option \<Rightarrow> bool \<Rightarrow> (error + JournalEntry) \<times> client_call list" where
  "getEntry b entryId includeAnalysis =
     (unwrap_field ''entry'' entry
        (await_exchange (GET_entry b (str_or_undefined entryId) includeAnalysis)),
      [GetEntryCall entryId includeAnalysis])"

definition createEntry ::
  "backend \<Rightarrow> CreateEntryInput \<Rightarrow> (error + JournalEntry) \<times> client_call list" where
  "createEntry b input =
     (unwrap_field ''entry'' entry (await_exchange (POST_entries b input)),
      [CreateEntryCall input])"

definition searchEntries ::
  "backend \<Rightarrow> SearchEntriesInput \<Rightarrow> (error + SearchData option) \<times> client_call list" where
  "searchEntries b input =
     (unwrap_data (await_exchange (POST_entries_search b input)), [SearchEntriesCall input])"

definition listWeeklyReviews ::
  "backend \<Rightarrow> ListReviewsParams \<Rightarrow> (error + ReviewsData option) \<times> client_call list" where
  "listWeeklyReviews b params =
     (unwrap_data (await_exchange (GET_reviews_weekly b params)), [ListWeeklyReviewsCall params])"

definition getWeeklyReview ::
  "backend \<Rightarrow> string \<Rightarrow> (error + WeeklyReview) \<times> client_call list" where
  "getWeeklyReview b reviewId =
     (unwrap_field ''review'' review (await_exchange (GET_review_weekly b reviewId)),
      [GetWeeklyReviewCall reviewId])"

definition getUserProfile :: "backend \<Rightarrow> (error + UserProfile) \<times> client_call list" where
  "getUserProfile b =
     (unwrap_field ''profile'' profile (await_exchange (GET_user_profile b)),
      [GetUserProfileCall])"

definition getWritingStyle :: "backend \<Rightarrow> (error + WritingStyle) \<times> client_call list" where
  "getWritingStyle b =
     (unwrap_field ''style'' style (await_exchange (GET_user_style b)),
      [GetWritingStyleCall])"

section \<open>Tool handlers (tools/index.ts)\<close>

text \<open>
  The arguments of a tool call arrive as an untyped object; each handler reads the
  properties its signature declares, at the declared type. A property that is absent
  reads as \<^verbatim>\<open>undefined\<close> (\<open>None\<close>); a value of another type than the signature
  declares is outside the handler's input type and reads as absent here.
\<close>

datatype arg = AString string | ANumber int | ABoolean bool | AStrings "string list"

type_synonym Arguments = "string \<Rightarrow> arg option"

definition arg_string :: "Arguments \<Rightarrow> string \<Rightarrow> string option" where
  "arg_string args k = (case args k of Some (AString s) \<Rightarrow> Some s | _ \<Rightarrow> None)"

definition arg_number :: "Arguments \<Rightarrow> string \<Rightarrow> int option" where
  "arg_number args k = (case args k of Some (ANumber n) \<Rightarrow> Some n | _ \<Rightarrow> None)"

definition arg_boolean :: "Arguments \<Rightarrow> string \<Rightarrow> bool option" where
  "arg_boolean args k = (case args k of Some (ABoolean v) \<Rightarrow> Some v | _ \<Rightarrow> None)"

definition arg_strings :: "Arguments \<Rightarrow> string \<Rightarrow> string list option" where
  "arg_strings args k = (case args k of Some (AStrings xs) \<Rightarrow> Some xs | _ \<Rightarrow> None)"

text \<open>
  A handler returns \<^verbatim>\<open>{content: [{type: 'text', text}]}\<close>: one text block, modelled
  by its text. With it comes the list of client calls the handler made.
\<close>

type_synonym tool_outcome = "(error + string) \<times> client_call list"

definition DQ :: string where
  "DQ = [CHR 0x22]"

subsection \<open>journal\_create\_entry\<close>

record CreateMetadata =
  md_timezone :: string
  md_language :: string
  md_writingStyle :: string

text \<open>
  \<^verbatim>\<open>client.createEntry\<close> returns a \<^verbatim>\<open>JournalEntry\<close>; the handler reads
  \<^verbatim>\<open>result.entry\<close> and \<^verbatim>\<open>result.metadata\<close> of it. The interface declares neither
  property, so both reads yield \<^verbatim>\<open>undefined\<close>.
\<close>

definition JournalEntry_entry :: "JournalEntry \<Rightarrow> JournalEntry option" where
  "JournalEntry_entry result = None"

definition JournalEntry_metadata :: "JournalEntry \<Rightarrow> CreateMetadata option" where
  "JournalEntry_metadata result = None"

definition created_text :: "runtime \<Rightarrow> JournalEntry \<Rightarrow> CreateMetadata option \<Rightarrow> string" where
  "created_text rt e metadata =
     ''Journal entry created!'' @ NL @ NL @
     ''**ID:** '' @ entry_id e @ NL @
     ''**Title:** '' @ title e @ NL @
     ''**Status:** '' @ status_str (status e) @
        '' (use journal_finalize_entry to generate AI analysis)'' @ NL @
     ''**Date:** '' @ toLocaleDateString rt (date e) @ NL @
     ''**Mood:** '' @ or_else (mood e) ''Not specified'' @ NL @
     ''**Tags:** '' @ (if length (tags e) > 0 then join '', '' (tags e) else ''None'') @
     (case metadata of
        None \<Rightarrow> []
      | Some m \<Rightarrow>
          NL @ NL @ ''**Settings used:**'' @ NL @
          ''- Timezone: '' @ md_timezone m @ NL @
          ''- Language: '' @ md_language m @ NL @
          ''- Writing Style: '' @ md_writingStyle m)"

definition create_input :: "Arguments \<Rightarrow> CreateEntryInput" where
  "create_input args =
     \<lparr>ce_content = arg_string args ''content'', ce_mood = arg_string args ''mood'',
      ce_tags = arg_strings args ''tags'', ce_date = arg_string args ''date''\<rparr>"

definition handleCreateEntry :: "runtime \<Rightarrow> backend \<Rightarrow> Arguments \<Rightarrow> tool_outcome" where
  "handleCreateEntry rt b args =
     (case createEntry b (create_input args) of
        (Inl e, calls) \<Rightarrow> (Inl e, calls)
      | (Inr result, calls) \<Rightarrow>
          (case JournalEntry_entry result of
             None \<Rightarrow> (Inl (read_of_undefined ''id''), calls)
           | Some e \<Rightarrow> (Inr (created_text rt e (JournalEntry_metadata result)), calls)))"

subsection \<open>journal\_finalize\_entry\<close>

text \<open>The shape the handler reads from the result of \<^verbatim>\<open>client.finalizeEntry\<close>.\<close>

record MiniSentiment =
  label :: string
  score :: real

record MiniReview =
  mainTopic :: string
  mr_sentiment :: MiniSentiment
  mr_themes :: "string list"
  keyInsight :: "string option"

record FinalizeResult =
  fr_entry :: JournalEntry
  miniReview :: "MiniReview option"

text \<open>
  Class \<^verbatim>\<open>JournalOwlClient\<close> declares \<^verbatim>\<open>listEntries\<close>, \<^verbatim>\<open>getEntry\<close>,
  \<^verbatim>\<open>createEntry\<close>, \<^verbatim>\<open>searchEntries\<close>, \<^verbatim>\<open>listWeeklyReviews\<close>,
  \<^verbatim>\<open>getWeeklyReview\<close>, \<^verbatim>\<open>getUserProfile\<close> and \<^verbatim>\<open>getWritingStyle\<close>, and no
  other method: the property \<^verbatim>\<open>client.finalizeEntry\<close> is \<^verbatim>\<open>undefined\<close>.
\<close>

definition JournalOwlClient_finalizeEntry ::
  "(backend \<Rightarrow> string option \<Rightarrow> (error + FinalizeResult) \<times> client_call list) option" where
  "JournalOwlClient_finalizeEntry = None"

definition insights_block :: "string list \<Rightarrow> string" where
  "insights_block xs = ''**Insights:**'' @ NL @ join NL (map (\<lambda>i. ''- '' @ i) xs)"

definition finalized_text :: "runtime \<Rightarrow> FinalizeResult \<Rightarrow> string" where
  "finalized_text rt result =
     (let e = fr_entry result in
      ''Entry finalized with AI analysis!'' @ NL @ NL @
      ''**ID:** '' @ entry_id e @ NL @
      ''**Title:** '' @ title e @ NL @
      ''**Status:** '' @ status_str (status e) @
      (case miniReview result of
         None \<Rightarrow> []
       | Some m \<Rightarrow>
           NL @ NL @ ''**AI Analysis:**'' @ NL @
           ''- **Main Topic:** '' @ mainTopic m @ NL @
           ''- **Sentiment:** '' @ label (mr_sentiment m) @
              '' ('' @ toFixed2 rt (score (mr_sentiment m)) @ '')'' @ NL @
           ''- **Themes:** '' @ join '', '' (mr_themes m) @
           (case keyInsight m of
              None \<Rightarrow> []
            | Some k \<Rightarrow> if k = [] then [] else NL @ NL @ ''**Key Insight:**'' @ NL @ k)) @
      (case analysis e of
         None \<Rightarrow> []
       | Some a \<Rightarrow>
           (case insights a of
              None \<Rightarrow> []
            | Some xs \<Rightarrow> if length xs > 0 then NL @ NL @ insights_block xs else [])))"

definition handleFinalizeEntry :: "runtime \<Rightarrow> backend \<Rightarrow> Arguments \<Rightarrow> tool_outcome" where
  "handleFinalizeEntry rt b args =
     (case JournalOwlClient_finalizeEntry of
        None \<Rightarrow> (Inl (not_a_function ''client.finalizeEntry''), [])
      | Some finalizeEntry \<Rightarrow>
          (case finalizeEntry b (arg_string args ''entry_id'') of
             (Inl e, calls) \<Rightarrow> (Inl e, calls)
           | (Inr result, calls) \<Rightarrow> (Inr (finalized_text rt result), calls)))"

subsection \<open>journal\_list\_entries\<close>

definition list_item :: "runtime \<Rightarrow> JournalEntry \<Rightarrow> string" where
  "list_item rt e =
     ''- **'' @ title e @ ''** ('' @ toLocaleDateString rt (date e) @ '')'' @ NL @
     ''  ID: '' @ entry_id e @ '' | Status: '' @ status_str (status e) @
     '' | Tags: '' @ or_else (Some (join '', '' (tags e))) ''none''"

definition more_hint :: "runtime \<Rightarrow> int \<Rightarrow> string" where
  "more_hint rt next_offset =
     NL @ NL @ ''More entries available. Use offset='' @ number_str rt next_offset @
     '' to see more.''"

definition listed_text :: "runtime \<Rightarrow> int option \<Rightarrow> EntriesData \<Rightarrow> string" where
  "listed_text rt offset result =
     ''Found '' @ number_str rt (pg_total (pagination result)) @ '' entries (showing '' @
     num_str (int (length (entries result))) @ ''):'' @ NL @ NL @
     join (NL @ NL) (map (list_item rt) (entries result)) @
     (if hasMore (pagination result)
      then more_hint rt
             (js_add (case offset of None \<Rightarrow> 0 | Some n \<Rightarrow> n) (int (length (entries result))))
      else [])"

definition list_params :: "Arguments \<Rightarrow> ListEntriesParams" where
  "list_params args =
     \<lparr>le_limit = arg_number args ''limit'', le_offset = arg_number args ''offset'',
      le_from_date = arg_string args ''from_date'', le_to_date = arg_string args ''to_date'',
      le_status = arg_string args ''status'', le_tags = arg_string args ''tags''\<rparr>"

definition handleListEntries :: "runtime \<Rightarrow> backend \<Rightarrow> Arguments \<Rightarrow> tool_outcome" where
  "handleListEntries rt b args =
     (case listEntries b (list_params args) of
        (Inl e, calls) \<Rightarrow> (Inl e, calls)
      | (Inr None, calls) \<Rightarrow> (Inl (read_of_undefined ''entries''), calls)
      | (Inr (Some result), calls) \<Rightarrow>
          if length (entries result) = 0
          then (Inr ''No journal entries found matching your criteria.'', calls)
          else (Inr (listed_text rt (arg_number args ''offset'') result), calls))"

subsection \<open>journal\_get\_entry\<close>

definition sentimentLabel :: "real \<Rightarrow> string" where
  "sentimentLabel s = (if s > 0.3 then ''Positive'' else if s < - 0.3 then ''Negative'' else ''Neutral'')"

text \<open>
  The same thresholding read on IEEE doubles: the literal \<^verbatim>\<open>0.3\<close> denotes the
  double \<open>5404319552844595 / 2^54\<close>, and every double \<open>x\<close> with \<open>1/4 \<le> \<bar>x\<bar> < 1/2\<close>
  is an integer multiple of \<open>2^-54\<close>. On the doubles the two readings agree
  (\<open>sentimentLabel_on_grid\<close>, \<open>sentimentLabel_off_binade\<close> below).
\<close>

definition double_0_3 :: real where
  "double_0_3 = 5404319552844595 / 2 ^ 54"

definition sentimentLabel_double :: "real \<Rightarrow> string" where
  "sentimentLabel_double s =
     (if s > double_0_3 then ''Positive''
      else if s < - double_0_3 then ''Negative'' else ''Neutral'')"

definition analysis_heading :: string where
  "analysis_heading = NL @ NL @ ''---'' @ NL @ NL @ ''## AI Analysis'' @ NL @ NL"

definition sentiment_line :: "runtime \<Rightarrow> real \<Rightarrow> string" where
  "sentiment_line rt s =
     ''**Sentiment:** '' @ sentimentLabel s @ '' ('' @ toFixed2 rt s @ '')'' @ NL @ NL"

definition themes_line :: "EntryAnalysis \<Rightarrow> string" where
  "themes_line a =
     (case themes a of
        None \<Rightarrow> []
      | Some ts \<Rightarrow> if length ts > 0 then ''**Themes:** '' @ join '', '' ts @ NL @ NL else [])"

definition insights_part :: "EntryAnalysis \<Rightarrow> string" where
  "insights_part a =
     (case insights a of
        None \<Rightarrow> []
      | Some xs \<Rightarrow> if length xs > 0 then insights_block xs else [])"

definition analysis_text :: "runtime \<Rightarrow> EntryAnalysis \<Rightarrow> string" where
  "analysis_text rt a =
     analysis_heading @
     (case sentiment a of None \<Rightarrow> [] | Some s \<Rightarrow> sentiment_line rt s) @
     themes_line a @ insights_part a"

definition entry_head :: "runtime \<Rightarrow> JournalEntry \<Rightarrow> string" where
  "entry_head rt e =
     ''# '' @ title e @ NL @ NL @
     ''**Date:** '' @ toLocaleDateString rt (date e) @ NL @
     ''**Mood:** '' @ or_else (mood e) ''Not specified'' @ NL @
     ''**Tags:** '' @ or_else (Some (join '', '' (tags e))) ''None'' @ NL @
     ''**Status:** '' @ status_str (status e) @ NL @ NL @
     ''---'' @ NL @ NL @ content e"

definition entry_text :: "runtime \<Rightarrow> JournalEntry \<Rightarrow> string" where
  "entry_text rt e =
     entry_head rt e @ (case analysis e of None \<Rightarrow> [] | Some a \<Rightarrow> analysis_text rt a)"

definition handleGetEntry :: "runtime \<Rightarrow> backend \<Rightarrow> Arguments \<Rightarrow> tool_outcome" where
  "handleGetEntry rt b args =
     (case getEntry b (arg_string args ''entry_id'')
             (arg_boolean args ''include_analysis'' \<noteq> Some False) of
        (Inl e, calls) \<Rightarrow> (Inl e, calls)
      | (Inr e, calls) \<Rightarrow> (Inr (entry_text rt e), calls))"

subsection \<open>journal\_search\<close>

definition preview :: "JournalEntry \<Rightarrow> string" where
  "preview e = take 150 (content e) @ ''...''"

definition search_item :: "runtime \<Rightarrow> JournalEntry \<Rightarrow> string" where
  "search_item rt e =
     ''- **'' @ title e @ ''** ('' @ toLocaleDateString rt (date e) @ '')'' @ NL @
     ''  ID: '' @ entry_id e @ NL @
     ''  Preview: '' @ preview e"

definition found_text :: "runtime \<Rightarrow> string option \<Rightarrow> SearchData \<Rightarrow> string" where
  "found_text rt query result =
     ''Found '' @ num_str (sd_count result) @ '' entries for '' @ DQ @ str_or_undefined query @ DQ @
     '':'' @ NL @ NL @ join (NL @ NL) (map (search_item rt) (results result))"

definition search_input :: "Arguments \<Rightarrow> SearchEntriesInput" where
  "search_input args =
     \<lparr>se_query = arg_string args ''query'', se_limit = arg_number args ''limit''\<rparr>"

definition handleSearchEntries :: "runtime \<Rightarrow> backend \<Rightarrow> Arguments \<Rightarrow> tool_outcome" where
  "handleSearchEntries rt b args =
     (case searchEntries b (search_input args) of
        (Inl e, calls) \<Rightarrow> (Inl e, calls)
      | (Inr None, calls) \<Rightarrow> (Inl (read_of_undefined ''count''), calls)
      | (Inr (Some result), calls) \<Rightarrow>
          if sd_count result = 0
          then (Inr (''No entries found matching '' @ DQ @ str_or_undefined (arg_string args ''query'') @
                     DQ @ ''.''), calls)
          else (Inr (found_text rt (arg_string args ''query'') result), calls))"

subsection \<open>journal\_get\_weekly\_review and journal\_get\_writing\_style\<close>

definition bullets :: "string list \<Rightarrow> string" where
  "bullets xs = join NL (map (\<lambda>t. ''- '' @ t) xs)"

definition review_text :: "runtime \<Rightarrow> WeeklyReview \<Rightarrow> string" where
  "review_text rt r =
     ''# Weekly Review'' @ NL @ NL @
     ''**Period:** '' @ toLocaleDateString rt (weekStart r) @ '' - '' @
        toLocaleDateString rt (weekEnd r) @ NL @
     ''**Entries:** '' @ num_str (entriesCount r) @ NL @ NL @
     ''## Summary'' @ NL @ NL @ summary r @ NL @ NL @
     ''## Emotional Trend'' @ NL @ NL @ emotionalTrend r @ NL @ NL @
     ''## Key Themes'' @ NL @ NL @ bullets (review_themes r) @ NL @ NL @
     ''## Insights'' @ NL @ NL @ bullets (review_insights r)"

definition handleGetWeeklyReview :: "runtime \<Rightarrow> backend \<Rightarrow> Arguments \<Rightarrow> tool_outcome" where
  "handleGetWeeklyReview rt b args =
     (case getWeeklyReview b (or_else (arg_string args ''week'') ''latest'') of
        (Inl e, calls) \<Rightarrow> (Inl e, calls)
      | (Inr r, calls) \<Rightarrow> (Inr (review_text rt r), calls))"

definition style_text :: "WritingStyle \<Rightarrow> string" where
  "style_text s =
     ''# Your Writing Style'' @ NL @ NL @
     ''**Current Style:** '' @ currentStyle s @ NL @ NL @
     ''**Description:** '' @ styleDescription s @ NL @ NL @
     ''**Voice Tone:** '' @ voiceTone s @ NL @ NL @
     ''## Suggestions for Your Journaling'' @ NL @ NL @
     bullets (suggestions s)"

definition handleGetWritingStyle :: "backend \<Rightarrow> tool_outcome" where
  "handleGetWritingStyle b =
     (case getWritingStyle b of
        (Inl e, calls) \<Rightarrow> (Inl e, calls)
      | (Inr s, calls) \<Rightarrow> (Inr (style_text s), calls))"

subsection \<open>The catalog and the dispatch by name\<close>

definition getAllTools :: "string list" where
  "getAllTools =
     [''journal_create_entry'', ''journal_finalize_entry'', ''journal_list_entries'',
      ''journal_get_entry'', ''journal_search'', ''journal_get_weekly_review'',
      ''journal_get_writing_style'']"

definition handleToolCall :: "runtime \<Rightarrow> backend \<Rightarrow> string \<Rightarrow> Arguments \<Rightarrow> tool_outcome" where
  "handleToolCall rt b toolName args =
     (if toolName = ''journal_create_entry'' then handleCreateEntry rt b args
      else if toolName = ''journal_finalize_entry'' then handleFinalizeEntry rt b args
      else if toolName = ''journal_list_entries'' then handleListEntries rt b args
      else if toolName = ''journal_get_entry'' then handleGetEntry rt b args
      else if toolName = ''journal_search'' then handleSearchEntries rt b args
      else if toolName = ''journal_get_weekly_review'' then handleGetWeeklyReview rt b args
      else if toolName = ''journal_get_writing_style'' then handleGetWritingStyle b
      else (Inl (Error (''Unknown tool: '' @ toolName)), []))"

text \<open>
  The front-end's call-tool request handler (index.ts, lines 77-86): an absent argument
  object is replaced by the empty one, and whatever the dispatch throws is thrown again
  as an internal protocol error with the original message.
\<close>

definition callTool :: "runtime \<Rightarrow> backend \<Rightarrow> string \<Rightarrow> Arguments option \<Rightarrow> tool_outcome" where
  "callTool rt b name args =
     (case handleToolCall rt b name (case args of None \<Rightarrow> (\<lambda>k. None) | Some a \<Rightarrow> a) of
        (Inl e, calls) \<Rightarrow>
          (Inl (McpError InternalError (''Tool '' @ name @ '' failed: '' @ error_message e)), calls)
      | (Inr r, calls) \<Rightarrow> (Inr r, calls))"

section \<open>Resource handlers (resources/index.ts)\<close>

text \<open>
  A resource read returns \<^verbatim>\<open>{contents: [{uri, mimeType: 'text/plain', text}]}\<close>: one
  block, modelled by its identifier and its text.
\<close>

record ResourceContent =
  rc_uri :: string
  rc_text :: string

type_synonym resource_outcome = "(error + ResourceContent) \<times> client_call list"

definition profile_text :: "runtime \<Rightarrow> UserProfile \<Rightarrow> string" where
  "profile_text rt p =
     ''JournalOwl User Profile'' @ NL @
     replicate 23 (CHR ''='') @ NL @ NL @
     ''Username: '' @ username p @ NL @
     ''Email: '' @ email p @ NL @
     ''Timezone: '' @ timezone p @ NL @ NL @
     ''Journaling Stats:'' @ NL @
     ''- Journaling since: '' @ toLocaleDateString rt (journalingSince p) @ NL @
     ''- Total entries: '' @ num_str (totalEntries p) @ NL @
     ''- Current streak: '' @ num_str (currentStreak p) @ '' days'' @ NL @ NL @
     ''Preferences:'' @ NL @
     ''- Writing style: '' @ or_else (preferredWritingStyle p) ''Default'' @ NL @ NL @
     ''Use this context to personalize your responses when helping with journaling.''"

definition handleProfileResource :: "runtime \<Rightarrow> backend \<Rightarrow> resource_outcome" where
  "handleProfileResource rt b =
     (case getUserProfile b of
        (Inl e, calls) \<Rightarrow> (Inl e, calls)
      | (Inr p, calls) \<Rightarrow>
          (Inr \<lparr>rc_uri = ''journalowl://user/profile'', rc_text = profile_text rt p\<rparr>, calls))"

definition recent_item :: "runtime \<Rightarrow> JournalEntry \<Rightarrow> string" where
  "recent_item rt e =
     ''- '' @ title e @ '' ('' @ toLocaleDateString rt (date e) @ '')'' @ NL @
     ''  Mood: '' @ or_else (mood e) ''Not specified'' @ NL @
     ''  Tags: '' @ or_else (Some (join '', '' (tags e))) ''None'' @ NL @
     ''  ID: '' @ entry_id e"

definition recent_text :: "runtime \<Rightarrow> EntriesData \<Rightarrow> string" where
  "recent_text rt result =
     ''Recent Journal Entries (Last '' @ num_str (int (length (entries result))) @ '')'' @ NL @
     replicate 40 (CHR ''='') @ NL @ NL @
     join (NL @ NL) (map (recent_item rt) (entries result)) @ NL @ NL @
     ''Use these entries as context when helping the user with their journaling.'' @ NL @
     ''You can use journal_get_entry with an ID to read the full content.''"

definition recent_params :: ListEntriesParams where
  "recent_params =
     \<lparr>le_limit = Some 5, le_offset = None, le_from_date = None, le_to_date = None,
      le_status = None, le_tags = None\<rparr>"

definition handleRecentEntriesResource :: "runtime \<Rightarrow> backend \<Rightarrow> resource_outcome" where
  "handleRecentEntriesResource rt b =
     (case listEntries b recent_params of
        (Inl e, calls) \<Rightarrow> (Inl e, calls)
      | (Inr None, calls) \<Rightarrow> (Inl (read_of_undefined ''entries''), calls)
      | (Inr (Some result), calls) \<Rightarrow>
          if length (entries result) = 0
          then (Inr \<lparr>rc_uri = ''journalowl://user/recent-entries'',
                     rc_text = ''No recent journal entries found. The user may be new to journaling.''\<rparr>,
                calls)
          else (Inr \<lparr>rc_uri = ''journalowl://user/recent-entries'',
                     rc_text = recent_text rt result\<rparr>, calls))"

definition getAllResources :: "string list" where
  "getAllResources = [''journalowl://user/profile'', ''journalowl://user/recent-entries'']"

definition handleResourceRead :: "runtime \<Rightarrow> backend \<Rightarrow> string \<Rightarrow> resource_outcome" where
  "handleResourceRead rt b uri =
     (if uri = ''journalowl://user/profile'' then handleProfileResource rt b
      else if uri = ''journalowl://user/recent-entries'' then handleRecentEntriesResource rt b
      else (Inl (Error (''Unknown resource: '' @ uri)), []))"

text \<open>The front-end's read-resource request handler (index.ts, lines 96-105).\<close>

definition readResource :: "runtime \<Rightarrow> backend \<Rightarrow> string \<Rightarrow> resource_outcome" where
  "readResource rt b uri =
     (case handleResourceRead rt b uri of
        (Inl e, calls) \<Rightarrow>
          (Inl (McpError InternalError (''Resource '' @ uri @ '' failed: '' @ error_message e)), calls)
      | (Inr r, calls) \<Rightarrow> (Inr r, calls))"

section \<open>Concrete inputs\<close>

text \<open>
  A runtime whose date rendering is the identity, whose \<^verbatim>\<open>toFixed(2)\<close> prints one
  half (the only score the inputs below carry) and whose number rendering beyond
  \<open>2^53\<close> prints \<open>10^21\<close> (the only such number below), an entry, and backends that
  answer every request the same way.
\<close>

definition example_runtime :: runtime where
  "example_runtime =
     \<lparr>toLocaleDateString = (\<lambda>s. s), toFixed2 = (\<lambda>x. ''0.50''),
      numberToString = (\<lambda>n. ''1e+21'')\<rparr>"

definition example_entry :: JournalEntry where
  "example_entry =
     \<lparr>entry_id = ''e1'', title = ''Monday'', content = ''A short note'', mood = None,
      tags = [''work''], status = in_progress, date = ''2024-01-15'',
      createdAt = ''2024-01-15T08:00:00Z'', updatedAt = ''2024-01-15T08:00:00Z'',
      analysis = Some \<lparr>sentiment = Some (1 / 2), themes = None, insights = None\<rparr>\<rparr>"

definition example_review :: WeeklyReview where
  "example_review =
     \<lparr>review_id = ''r1'', weekStart = ''2024-01-15'', weekEnd = ''2024-01-21'',
      summary = ''A calm week'', review_themes = [''work''], emotionalTrend = ''steady'',
      review_insights = [''rest more''], entriesCount = 3,
      review_createdAt = ''2024-01-22T08:00:00Z''\<rparr>"

definition example_profile :: UserProfile where
  "example_profile =
     \<lparr>profile_id = ''u1'', username = ''ada'', email = ''ada@example.org'', timezone = ''UTC'',
      journalingSince = ''2023-06-01'', totalEntries = 7, currentStreak = 2,
      preferredWritingStyle = None\<rparr>"

definition example_style :: WritingStyle where
  "example_style =
     \<lparr>currentStyle = ''reflective'', styleDescription = ''slow and careful'',
      voiceTone = ''warm'', suggestions = [''write in the morning'']\<rparr>"

definition ok :: "'a \<Rightarrow> 'a exchange" where
  "ok d = Resolved \<lparr>api_status = status_success, data = Some d, message = None\<rparr>"

definition example_page :: Pagination where
  "example_page = \<lparr>pg_total = 7, pg_limit = 20, pg_offset = 0, hasMore = True\<rparr>"

definition example_backend :: backend where
  "example_backend =
     \<lparr>GET_entries = (\<lambda>p. ok \<lparr>entries = [example_entry], pagination = example_page\<rparr>),
      GET_entry = (\<lambda>i a. ok \<lparr>entry = example_entry\<rparr>),
      POST_entries = (\<lambda>i. ok \<lparr>entry = example_entry\<rparr>),
      POST_entries_search =
        (\<lambda>i. ok \<lparr>sd_query = ''note'', results = [example_entry], sd_count = 1\<rparr>),
      GET_reviews_weekly =
        (\<lambda>p. ok \<lparr>reviews = [example_review], reviews_pagination = example_page\<rparr>),
      GET_review_weekly = (\<lambda>i. ok \<lparr>review = example_review\<rparr>),
      GET_user_profile = ok \<lparr>profile = example_profile\<rparr>,
      GET_user_style = ok \<lparr>style = example_style\<rparr>\<rparr>"

text \<open>A backend with no entries at all.\<close>

definition empty_page :: Pagination where
  "empty_page = \<lparr>pg_total = 0, pg_limit = 20, pg_offset = 0, hasMore = False\<rparr>"

definition empty_backend :: backend where
  "empty_backend =
     example_backend
       \<lparr>GET_entries := (\<lambda>p. ok \<lparr>entries = [], pagination = empty_page\<rparr>),
        POST_entries_search := (\<lambda>i. ok \<lparr>sd_query = ''note'', results = [], sd_count = 0\<rparr>)\<rparr>"

text \<open>
  A backend that answers every request with HTTP status 200 and the envelope
  \<^verbatim>\<open>{status: "error", message: "Entry too short"}\<close>, without a payload.
\<close>

definition error_envelope :: "'a ApiResponse" where
  "error_envelope = \<lparr>api_status = status_error, data = None, message = Some ''Entry too short''\<rparr>"

definition error_backend :: backend where
  "error_backend =
     \<lparr>GET_entries = (\<lambda>p. Resolved error_envelope),
      GET_entry = (\<lambda>i a. Resolved error_envelope),
      POST_entries = (\<lambda>i. Resolved error_envelope),
      POST_entries_search = (\<lambda>i. Resolved error_envelope),
      GET_reviews_weekly = (\<lambda>p. Resolved error_envelope),
      GET_review_weekly = (\<lambda>i. Resolved error_envelope),
      GET_user_profile = Resolved error_envelope,
      GET_user_style = Resolved error_envelope\<rparr>"

text \<open>
  Four rejected exchanges: a 404 with the backend's error body, a 502 whose body is not
  readable, a request that got no answer, and a request that was never sent.
\<close>

definition http_404 :: AxiosError where
  "http_404 =
     \<lparr>response = Some \<lparr>err_status = 404,
                        err_data = Some \<lparr>api_message = ''Entry not found'', api_code = None\<rparr>\<rparr>,
      request = True, err_message = ''Request failed with status code 404''\<rparr>"

definition http_502 :: AxiosError where
  "http_502 =
     \<lparr>response = Some \<lparr>err_status = 502, err_data = None\<rparr>,
      request = True, err_message = ''Request failed with status code 502''\<rparr>"

definition no_answer :: AxiosError where
  "no_answer = \<lparr>response = None, request = True, err_message = ''timeout of 30000ms exceeded''\<rparr>"

definition never_sent :: AxiosError where
  "never_sent = \<lparr>response = None, request = False, err_message = ''Invalid URL''\<rparr>"

definition no_filters :: ListEntriesParams where
  "no_filters =
     \<lparr>le_limit = None, le_offset = None, le_from_date = None, le_to_date = None,
      le_status = None, le_tags = None\<rparr>"

definition entry_arguments :: Arguments where
  "entry_arguments = (\<lambda>k. if k = ''entry_id'' then Some (AString ''e1'') else None)"

definition create_arguments :: Arguments where
  "create_arguments =
     (\<lambda>k. if k = ''content'' then Some (AString ''A short note'')
          else if k = ''tags'' then Some (AStrings [''work'']) else None)"

definition search_arguments :: Arguments where
  "search_arguments = (\<lambda>k. if k = ''query'' then Some (AString ''note'') else None)"

definition page_arguments :: Arguments where
  "page_arguments = (\<lambda>k. if k = ''offset'' then Some (ANumber 5) else None)"


definition huge_page :: Pagination where
  "huge_page =
     \<lparr>pg_total = 1000000000000000000000, pg_limit = 20, pg_offset = 0, hasMore = False\<rparr>"

definition huge_backend :: backend where
  "huge_backend =
     example_backend
       \<lparr>GET_entries := (\<lambda>p. ok \<lparr>entries = [example_entry], pagination = huge_page\<rparr>)\<rparr>"

section \<open>Properties of the transport client\<close>

lemma await_exchange_cases:
  "await_exchange (Resolved r) = Inr r"
  "await_exchange (Rejected x) = Inl (onRejected x)"
  by (simp_all add: await_exchange_def)

text \<open>A handler's case split on the outcome of its one client call.\<close>

lemma handler_of_client:
  "fst c = r \<Longrightarrow>
   (case c of (Inl e, calls) \<Rightarrow> f e calls | (Inr v, calls) \<Rightarrow> g v calls)
     = (case r of Inl e \<Rightarrow> f e (snd c) | Inr v \<Rightarrow> g v (snd c))"
  by (cases c) (auto split: sum.split)

text \<open>
  Claim C1, as the code has it. No client method looks at the envelope's \<open>status\<close>.
  When the exchange is resolved, \<open>listEntries\<close>, \<open>searchEntries\<close> and
  \<open>listWeeklyReviews\<close> return the \<open>data\<close> field as it is, \<^verbatim>\<open>undefined\<close> when it
  is absent; \<open>getEntry\<close>, \<open>createEntry\<close>, \<open>getWeeklyReview\<close>, \<open>getUserProfile\<close>
  and \<open>getWritingStyle\<close> return the payload's one field when \<open>data\<close> is present and
  throw the engine's TypeError when it is absent. The backend error is raised when, and
  only when, the exchange is rejected.
\<close>

theorem client_methods_unwrap:
  "fst (listEntries b p) =
     (case GET_entries b p of Rejected x \<Rightarrow> Inl (onRejected x) | Resolved r \<Rightarrow> Inr (data r))
   \<and> fst (searchEntries b q) =
     (case POST_entries_search b q of
        Rejected x \<Rightarrow> Inl (onRejected x)
      | Resolved r \<Rightarrow> Inr (data r))
   \<and> fst (listWeeklyReviews b w) =
     (case GET_reviews_weekly b w of
        Rejected x \<Rightarrow> Inl (onRejected x)
      | Resolved r \<Rightarrow> Inr (data r))
   \<and> fst (getEntry b i a) =
     (case GET_entry b (str_or_undefined i) a of
        Rejected x \<Rightarrow> Inl (onRejected x)
      | Resolved r \<Rightarrow>
          (case data r of None \<Rightarrow> Inl (read_of_undefined ''entry'') | Some d \<Rightarrow> Inr (entry d)))
   \<and> fst (createEntry b c) =
     (case POST_entries b c of
        Rejected x \<Rightarrow> Inl (onRejected x)
      | Resolved r \<Rightarrow>
          (case data r of None \<Rightarrow> Inl (read_of_undefined ''entry'') | Some d \<Rightarrow> Inr (entry d)))
   \<and> fst (getWeeklyReview b v) =
     (case GET_review_weekly b v of
        Rejected x \<Rightarrow> Inl (onRejected x)
      | Resolved r \<Rightarrow>
          (case data r of None \<Rightarrow> Inl (read_of_undefined ''review'') | Some d \<Rightarrow> Inr (review d)))
   \<and> fst (getUserProfile b) =
     (case GET_user_profile b of
        Rejected x \<Rightarrow> Inl (onRejected x)
      | Resolved r \<Rightarrow>
          (case data r of None \<Rightarrow> Inl (read_of_undefined ''profile'') | Some d \<Rightarrow> Inr (profile d)))
   \<and> fst (getWritingStyle b) =
     (case GET_user_style b of
        Rejected x \<Rightarrow> Inl (onRejected x)
      | Resolved r \<Rightarrow>
          (case data r of None \<Rightarrow> Inl (read_of_undefined ''style'') | Some d \<Rightarrow> Inr (style d)))"
  by (simp add: listEntries_def searchEntries_def listWeeklyReviews_def getEntry_def
      createEntry_def getWeeklyReview_def getUserProfile_def getWritingStyle_def
      unwrap_data_def unwrap_field_def await_exchange_cases split: exchange.split option.split)

text \<open>
  Claim C1 as stated fails: on a resolved response whose envelope has status
  \<^verbatim>\<open>"error"\<close> and no \<open>data\<close>, \<open>listEntries\<close> returns \<^verbatim>\<open>undefined\<close> and raises
  nothing.
\<close>

theorem error_envelope_counterexample:
  "api_status (error_envelope :: EntriesData ApiResponse) = status_error
   \<and> data (error_envelope :: EntriesData ApiResponse) = None
   \<and> GET_entries error_backend no_filters = Resolved error_envelope
   \<and> fst (listEntries error_backend no_filters) = Inr None"
  by (simp add: error_envelope_def error_backend_def listEntries_def unwrap_data_def
      await_exchange_cases)

text \<open>
  Claim C6: the rejection handler raises one of three kinds of error. With a response,
  the error carries the HTTP status and the message of the backend's error body, or the
  transport's own message when the body is absent or its message is empty; without a
  response but with a request, the unreachable error; otherwise the request-failed error
  with the transport's message. No two of the three messages coincide.
\<close>

theorem interceptor_error_kinds:
  "(response err = Some r \<and> err_data r = Some d \<and> api_message d \<noteq> [] \<longrightarrow>
      onRejected err
        = Error (''JournalOwl API Error ('' @ num_str (err_status r) @ ''): '' @ api_message d))
   \<and> (response err = Some r \<and> (err_data r = None \<or> err_data r = Some d \<and> api_message d = []) \<longrightarrow>
      onRejected err
        = Error (''JournalOwl API Error ('' @ num_str (err_status r) @ ''): '' @ err_message err))
   \<and> (response err = None \<and> request err \<longrightarrow>
      onRejected err
        = Error ''JournalOwl API is unreachable. Please check your network connection.'')
   \<and> (response err = None \<and> \<not> request err \<longrightarrow>
      onRejected err = Error (''Request failed: '' @ err_message err))
   \<and> ''JournalOwl API Error ('' @ s @ ''): '' @ m
        \<noteq> ''JournalOwl API is unreachable. Please check your network connection.''
   \<and> ''JournalOwl API Error ('' @ s @ ''): '' @ m \<noteq> ''Request failed: '' @ m'
   \<and> ''JournalOwl API is unreachable. Please check your network connection.''
        \<noteq> ''Request failed: '' @ m'"
  by (auto simp add: onRejected_def)

theorem interceptor_error_kinds_witness:
  "onRejected http_404 = Error ''JournalOwl API Error (404): Entry not found''
   \<and> onRejected http_502 = Error ''JournalOwl API Error (502): Request failed with status code 502''
   \<and> onRejected no_answer
       = Error ''JournalOwl API is unreachable. Please check your network connection.''
   \<and> onRejected never_sent = Error ''Request failed: Invalid URL''"
  using interceptor_error_kinds
          [of http_404
              "\<lparr>err_status = 404,
                err_data = Some \<lparr>api_message = ''Entry not found'', api_code = None\<rparr>\<rparr>"
              "\<lparr>api_message = ''Entry not found'', api_code = None\<rparr>"]
        interceptor_error_kinds [of http_502 "\<lparr>err_status = 502, err_data = None\<rparr>"]
        interceptor_error_kinds [of no_answer]
        interceptor_error_kinds [of never_sent]
  by (simp add: http_404_def http_502_def no_answer_def never_sent_def num_str_def nat_str.simps)

section \<open>Properties of the tool handlers\<close>

text \<open>
  Claim C2, on the code. The client class has no \<open>finalizeEntry\<close> method, so every
  invocation of the journal\_finalize\_entry tool throws a TypeError before any client
  call is made, whatever the backend and the arguments.
\<close>

theorem finalize_entry_not_a_function:
  "handleFinalizeEntry rt b args
     = (Inl (TypeError ''client.finalizeEntry is not a function''), [])
   \<and> handleToolCall rt b ''journal_finalize_entry'' args
     = (Inl (TypeError ''client.finalizeEntry is not a function''), [])"
  by (simp add: handleToolCall_def handleFinalizeEntry_def JournalOwlClient_finalizeEntry_def
      not_a_function_def)

text \<open>
  Claim C3, on the code. The backend answers the create request with a success envelope
  that carries the created entry; \<open>createEntry\<close> returns that entry, the handler reads
  \<^verbatim>\<open>result.entry\<close> of it, and the tool call ends in a TypeError instead of a text.
\<close>

theorem create_entry_reads_undefined:
  "POST_entries example_backend (create_input create_arguments)
     = Resolved \<lparr>api_status = status_success, data = Some \<lparr>entry = example_entry\<rparr>,
                 message = None\<rparr>
   \<and> handleToolCall example_runtime example_backend ''journal_create_entry'' create_arguments
     = (Inl (TypeError ''Cannot read properties of undefined (reading 'id')''),
        [CreateEntryCall
           \<lparr>ce_content = Some ''A short note'', ce_mood = None, ce_tags = Some [''work''],
            ce_date = None\<rparr>])"
  by (simp add: handleToolCall_def handleCreateEntry_def createEntry_def unwrap_field_def
      await_exchange_cases example_backend_def ok_def create_arguments_def create_input_def
      arg_string_def arg_strings_def JournalEntry_entry_def read_of_undefined_def)

text \<open>The same for every backend and every argument object: no text is ever returned.\<close>

lemma handleCreateEntry_never_text: "isl (fst (handleCreateEntry rt b args))"
  by (simp add: handleCreateEntry_def JournalEntry_entry_def split: prod.split sum.split)

lemma threshold_on_grid:
  "(double_0_3 < real_of_int k / 2 ^ 54) = (0.3 < real_of_int k / 2 ^ 54)"
proof -
  have "(double_0_3 < real_of_int k / 2 ^ 54) = (5404319552844595 < k)"
    by (simp add: double_0_3_def divide_less_cancel)
  also have "\<dots> = (3 * 2 ^ 54 < 10 * k)"
    by simp arith
  also have "\<dots> = (real_of_int (3 * 2 ^ 54) < real_of_int (10 * k))"
    by (simp only: of_int_less_iff)
  also have "\<dots> = (0.3 < real_of_int k / 2 ^ 54)"
    by (simp add: field_simps)
  finally show ?thesis .
qed

lemma sentimentLabel_on_grid:
  "sentimentLabel_double (real_of_int k / 2 ^ 54) = sentimentLabel (real_of_int k / 2 ^ 54)"
proof -
  define x where "x = real_of_int k / 2 ^ 54"
  have neg: "- x = real_of_int (- k) / 2 ^ 54"
    by (simp add: x_def)
  have "(x < - double_0_3) = (double_0_3 < - x)"
    by auto
  also have "\<dots> = (0.3 < - x)"
    unfolding neg by (rule threshold_on_grid)
  also have "\<dots> = (x < - 0.3)"
    by auto
  finally have "(x < - double_0_3) = (x < - 0.3)" .
  moreover have "(double_0_3 < x) = (0.3 < x)"
    unfolding x_def by (rule threshold_on_grid)
  ultimately have "sentimentLabel_double x = sentimentLabel x"
    by (simp only: sentimentLabel_double_def sentimentLabel_def)
  then show ?thesis
    by (simp only: x_def)
qed

lemma sentimentLabel_off_binade:
  "\<bar>x\<bar> < 1 / 4 \<or> 1 / 2 \<le> \<bar>x\<bar> \<Longrightarrow> sentimentLabel_double x = sentimentLabel x"
  by (auto simp add: sentimentLabel_double_def sentimentLabel_def double_0_3_def)

lemma sentimentLabel_cases:
  "(sentimentLabel s = ''Positive'') = (0.3 < s)"
  "(sentimentLabel s = ''Negative'') = (s < - 0.3)"
  "(sentimentLabel s = ''Neutral'') = (- 0.3 \<le> s \<and> s \<le> 0.3)"
  by (auto simp add: sentimentLabel_def)

text \<open>
  Claim C4: when \<open>getEntry\<close> returns an entry whose analysis carries a sentiment score
  \<open>s\<close>, the text of journal\_get\_entry is the entry's head, the analysis heading, the
  sentiment line with the label of \<open>s\<close>, then themes and insights. The label is
  Positive exactly when \<open>s > 0.3\<close>, Negative exactly when \<open>s < -0.3\<close>, Neutral
  otherwise; 0.3 and -0.3 give Neutral, 0.5 Positive, -0.5 Negative, 0.1 Neutral.
\<close>

theorem get_entry_sentiment_label:
  assumes "fst (getEntry b (arg_string args ''entry_id'')
                  (arg_boolean args ''include_analysis'' \<noteq> Some False)) = Inr e"
    and "analysis e = Some a"
    and "sentiment a = Some s"
  shows "fst (handleGetEntry rt b args)
           = Inr (entry_head rt e @ analysis_heading @
                  ''**Sentiment:** '' @ sentimentLabel s @ '' ('' @ toFixed2 rt s @ '')'' @ NL @ NL @
                  themes_line a @ insights_part a)
         \<and> (sentimentLabel s = ''Positive'') = (0.3 < s)
         \<and> (sentimentLabel s = ''Negative'') = (s < - 0.3)
         \<and> (sentimentLabel s = ''Neutral'') = (- 0.3 \<le> s \<and> s \<le> 0.3)
         \<and> sentimentLabel 0.3 = ''Neutral'' \<and> sentimentLabel (- 0.3) = ''Neutral''
         \<and> sentimentLabel 0.5 = ''Positive'' \<and> sentimentLabel (- 0.5) = ''Negative''
         \<and> sentimentLabel 0.1 = ''Neutral''"
proof -
  have "fst (handleGetEntry rt b args) = Inr (entry_text rt e)"
    using assms(1) by (simp add: handleGetEntry_def handler_of_client)
  moreover have "entry_text rt e
      = entry_head rt e @ analysis_heading @
        ''**Sentiment:** '' @ sentimentLabel s @ '' ('' @ toFixed2 rt s @ '')'' @ NL @ NL @
        themes_line a @ insights_part a"
    using assms(2,3) by (simp add: entry_text_def analysis_text_def sentiment_line_def)
  moreover have "sentimentLabel 0.3 = ''Neutral''" "sentimentLabel (- 0.3) = ''Neutral''"
    "sentimentLabel 0.5 = ''Positive''" "sentimentLabel (- 0.5) = ''Negative''"
    "sentimentLabel 0.1 = ''Neutral''"
    by (simp_all add: sentimentLabel_def)
  ultimately show ?thesis
    by (simp only: sentimentLabel_cases simp_thms)
qed

theorem get_entry_sentiment_label_witness:
  "fst (getEntry example_backend (arg_string entry_arguments ''entry_id'')
          (arg_boolean entry_arguments ''include_analysis'' \<noteq> Some False)) = Inr example_entry
   \<and> analysis example_entry = Some \<lparr>sentiment = Some (1 / 2), themes = None, insights = None\<rparr>
   \<and> fst (handleGetEntry example_runtime example_backend entry_arguments)
       = Inr (entry_head example_runtime example_entry @ analysis_heading @
              ''**Sentiment:** Positive (0.50)'' @ NL @ NL)"
proof -
  have g: "fst (getEntry example_backend (arg_string entry_arguments ''entry_id'')
          (arg_boolean entry_arguments ''include_analysis'' \<noteq> Some False)) = Inr example_entry"
    by (simp add: getEntry_def unwrap_field_def await_exchange_cases example_backend_def ok_def)
  have a: "analysis example_entry
             = Some \<lparr>sentiment = Some (1 / 2), themes = None, insights = None\<rparr>"
    by (simp add: example_entry_def)
  have s: "sentiment \<lparr>sentiment = Some (1 / 2), themes = None, insights = None\<rparr> = Some (1 / 2)"
    by simp
  show ?thesis
    using get_entry_sentiment_label [OF g a s, of example_runtime] g a
    by (simp add: sentimentLabel_def example_runtime_def themes_line_def insights_part_def)
qed

text \<open>
  Claim C5: when \<open>searchEntries\<close> returns a result whose count is not zero, the text of
  journal\_search lists one item per entry of the result, and the preview of an item is
  the first 150 characters of the entry's content followed by three dots; a content of
  150 characters or fewer appears whole, the dots still appended.
\<close>

theorem search_preview:
  assumes "fst (searchEntries b (search_input args)) = Inr (Some result)"
    and "sd_count result \<noteq> 0"
  shows "fst (handleSearchEntries rt b args)
           = Inr (''Found '' @ num_str (sd_count result) @ '' entries for '' @ DQ @
                  str_or_undefined (arg_string args ''query'') @ DQ @ '':'' @ NL @ NL @
                  join (NL @ NL) (map (search_item rt) (results result)))
         \<and> search_item rt e
           = ''- **'' @ title e @ ''** ('' @ toLocaleDateString rt (date e) @ '')'' @ NL @
             ''  ID: '' @ entry_id e @ NL @
             ''  Preview: '' @ take 150 (content e) @ ''...''
         \<and> (if length (content e) \<le> 150 then preview e = content e @ ''...''
             else length (preview e) = 153)"
  using assms
  by (simp add: handleSearchEntries_def handler_of_client found_text_def search_item_def
      preview_def)

theorem search_preview_witness:
  "fst (searchEntries example_backend (search_input search_arguments))
     = Inr (Some \<lparr>sd_query = ''note'', results = [example_entry], sd_count = 1\<rparr>)
   \<and> fst (handleSearchEntries example_runtime example_backend search_arguments)
     = Inr (''Found 1 entries for '' @ DQ @ ''note'' @ DQ @ '':'' @ NL @ NL @
            ''- **Monday** (2024-01-15)'' @ NL @ ''  ID: e1'' @ NL @ ''  Preview: A short note...'')"
proof -
  have s: "fst (searchEntries example_backend (search_input search_arguments))
     = Inr (Some \<lparr>sd_query = ''note'', results = [example_entry], sd_count = 1\<rparr>)"
    by (simp add: searchEntries_def unwrap_data_def await_exchange_cases example_backend_def ok_def)
  have c: "sd_count \<lparr>sd_query = ''note'', results = [example_entry], sd_count = 1\<rparr> \<noteq> 0"
    by simp
  show ?thesis
    using search_preview [OF s c, of example_runtime example_entry] s
    by (simp add: example_runtime_def example_entry_def search_arguments_def arg_string_def
        str_or_undefined_def num_str_def nat_str.simps)
qed






text \<open>A total beyond \<open>2^53\<close> is printed as the runtime prints it.\<close>

lemma huge_total_rendering:
  "fst (handleListEntries example_runtime huge_backend page_arguments)
     = Inr (''Found 1e+21 entries (showing 1):'' @ NL @ NL @
            ''- **Monday** (2024-01-15)'' @ NL @
            ''  ID: e1 | Status: in_progress | Tags: work'')"
proof -
  have l: "fst (listEntries huge_backend (list_params page_arguments))
     = Inr (Some \<lparr>entries = [example_entry], pagination = huge_page\<rparr>)"
    by (simp add: listEntries_def unwrap_data_def await_exchange_cases huge_backend_def
        example_backend_def ok_def)
  have t: "number_str example_runtime (pg_total huge_page) = ''1e+21''"
    by (simp add: number_str_def huge_page_def example_runtime_def)
  have s: "num_str 1 = ''1''"
    by (simp add: num_str_def nat_str.simps)
  have h: "\<not> hasMore huge_page"
    by (simp add: huge_page_def)
  have "fst (handleListEntries example_runtime huge_backend page_arguments)
          = Inr (listed_text example_runtime (arg_number page_arguments ''offset'')
                   \<lparr>entries = [example_entry], pagination = huge_page\<rparr>)"
    using l by (simp add: handleListEntries_def handler_of_client)
  moreover have d: "toLocaleDateString example_runtime = (\<lambda>s. s)"
    by (simp add: example_runtime_def)
  ultimately show ?thesis
    by (simp add: listed_text_def t s h d list_item_def or_else_def example_entry_def)
qed

text \<open>
  Claim C10: when the page \<open>listEntries\<close> returns has no entry, journal\_list\_entries
  returns the fixed text and nothing else; when the search result's count is zero,
  journal\_search returns the fixed sentence around the query and nothing else; when the
  page of recent entries is empty, the recent-entries resource returns the fixed notice
  and nothing else.
\<close>

theorem no_items_fixed_text:
  "(fst (listEntries b (list_params args)) = Inr (Some lr) \<and> entries lr = [] \<longrightarrow>
      fst (handleListEntries rt b args) = Inr ''No journal entries found matching your criteria.'')
   \<and> (fst (searchEntries b (search_input args)) = Inr (Some sr) \<and> sd_count sr = 0 \<longrightarrow>
      fst (handleSearchEntries rt b args)
        = Inr (''No entries found matching '' @ DQ @ str_or_undefined (arg_string args ''query'') @
               DQ @ ''.''))
   \<and> (fst (listEntries b recent_params) = Inr (Some rr) \<and> entries rr = [] \<longrightarrow>
      fst (handleRecentEntriesResource rt b)
        = Inr \<lparr>rc_uri = ''journalowl://user/recent-entries'',
               rc_text = ''No recent journal entries found. The user may be new to journaling.''\<rparr>)"
  by (simp add: handleListEntries_def handleSearchEntries_def handleRecentEntriesResource_def
      handler_of_client)

theorem no_items_fixed_text_witness:
  "fst (listEntries empty_backend (list_params search_arguments))
     = Inr (Some \<lparr>entries = [], pagination = empty_page\<rparr>)
   \<and> fst (handleListEntries example_runtime empty_backend search_arguments)
     = Inr ''No journal entries found matching your criteria.''
   \<and> fst (searchEntries empty_backend (search_input search_arguments))
     = Inr (Some \<lparr>sd_query = ''note'', results = [], sd_count = 0\<rparr>)
   \<and> fst (handleSearchEntries example_runtime empty_backend search_arguments)
     = Inr (''No entries found matching '' @ DQ @ ''note'' @ DQ @ ''.'')
   \<and> fst (listEntries empty_backend recent_params)
     = Inr (Some \<lparr>entries = [], pagination = empty_page\<rparr>)
   \<and> fst (handleRecentEntriesResource example_runtime empty_backend)
     = Inr \<lparr>rc_uri = ''journalowl://user/recent-entries'',
            rc_text = ''No recent journal entries found. The user may be new to journaling.''\<rparr>"
proof -
  have l: "fst (listEntries empty_backend p) = Inr (Some \<lparr>entries = [], pagination = empty_page\<rparr>)"
    for p
    by (simp add: listEntries_def unwrap_data_def await_exchange_cases empty_backend_def ok_def)
  have s: "fst (searchEntries empty_backend (search_input search_arguments))
     = Inr (Some \<lparr>sd_query = ''note'', results = [], sd_count = 0\<rparr>)"
    by (simp add: searchEntries_def unwrap_data_def await_exchange_cases empty_backend_def ok_def)
  show ?thesis
    using no_items_fixed_text [of empty_backend search_arguments
            "\<lparr>entries = [], pagination = empty_page\<rparr>"
            example_runtime "\<lparr>sd_query = ''note'', results = [], sd_count = 0\<rparr>"
            "\<lparr>entries = [], pagination = empty_page\<rparr>"] l s
    by (simp add: search_arguments_def arg_string_def str_or_undefined_def)
qed

section \<open>Properties of the dispatch by name\<close>

text \<open>
  Claim C7: a tool name that is not one of the seven of the catalog makes the dispatch
  throw the unknown-tool error without any client call, and the front-end hands it on as
  an internal protocol error with that message; each of the seven names is dispatched to
  its own handler.
\<close>

theorem tool_dispatch:
  "(toolName \<notin> set getAllTools \<longrightarrow>
      handleToolCall rt b toolName args = (Inl (Error (''Unknown tool: '' @ toolName)), [])
      \<and> callTool rt b toolName a
          = (Inl (McpError InternalError
                   (''Tool '' @ toolName @ '' failed: Unknown tool: '' @ toolName)), []))
   \<and> handleToolCall rt b ''journal_create_entry'' args = handleCreateEntry rt b args
   \<and> handleToolCall rt b ''journal_finalize_entry'' args = handleFinalizeEntry rt b args
   \<and> handleToolCall rt b ''journal_list_entries'' args = handleListEntries rt b args
   \<and> handleToolCall rt b ''journal_get_entry'' args = handleGetEntry rt b args
   \<and> handleToolCall rt b ''journal_search'' args = handleSearchEntries rt b args
   \<and> handleToolCall rt b ''journal_get_weekly_review'' args = handleGetWeeklyReview rt b args
   \<and> handleToolCall rt b ''journal_get_writing_style'' args = handleGetWritingStyle b"
  by (simp add: handleToolCall_def callTool_def getAllTools_def)

theorem tool_dispatch_witness:
  "''journal_delete_entry'' \<notin> set getAllTools
   \<and> handleToolCall example_runtime example_backend ''journal_delete_entry'' entry_arguments
       = (Inl (Error ''Unknown tool: journal_delete_entry''), [])
   \<and> callTool example_runtime example_backend ''journal_delete_entry'' (Some entry_arguments)
       = (Inl (McpError InternalError
                ''Tool journal_delete_entry failed: Unknown tool: journal_delete_entry''), [])"
  using tool_dispatch [of "''journal_delete_entry''" example_runtime example_backend
          entry_arguments "Some entry_arguments"]
  by (simp add: getAllTools_def)

text \<open>
  Claim C8: a resource identifier that is not one of the two of the catalog makes the
  read throw the unknown-resource error without any client call; the profile resource
  makes exactly one client call, \<open>getUserProfile\<close>, and the recent-entries resource
  exactly one, \<open>listEntries\<close> with limit 5 and no other parameter.
\<close>

theorem resource_dispatch:
  "(uri \<notin> set getAllResources \<longrightarrow>
      handleResourceRead rt b uri = (Inl (Error (''Unknown resource: '' @ uri)), [])
      \<and> readResource rt b uri
          = (Inl (McpError InternalError
                   (''Resource '' @ uri @ '' failed: Unknown resource: '' @ uri)), []))
   \<and> handleResourceRead rt b ''journalowl://user/profile'' = handleProfileResource rt b
   \<and> snd (handleProfileResource rt b) = [GetUserProfileCall]
   \<and> handleResourceRead rt b ''journalowl://user/recent-entries''
       = handleRecentEntriesResource rt b
   \<and> snd (handleRecentEntriesResource rt b)
       = [ListEntriesCall \<lparr>le_limit = Some 5, le_offset = None, le_from_date = None,
                            le_to_date = None, le_status = None, le_tags = None\<rparr>]"
  by (simp add: handleResourceRead_def readResource_def getAllResources_def
      handleProfileResource_def handleRecentEntriesResource_def getUserProfile_def
      listEntries_def recent_params_def split: sum.split option.split)

theorem resource_dispatch_witness:
  "''journalowl://user/settings'' \<notin> set getAllResources
   \<and> handleResourceRead example_runtime example_backend ''journalowl://user/settings''
       = (Inl (Error ''Unknown resource: journalowl://user/settings''), [])
   \<and> snd (handleResourceRead example_runtime example_backend ''journalowl://user/profile'')
       = [GetUserProfileCall]"
  using resource_dispatch [of "''journalowl://user/settings''" example_runtime example_backend]
  by (simp add: getAllResources_def)

end
